theory Spec2Isabelle
  imports Main "HOL-Library.Char_ord" "HOL-Library.List_Lexorder"
begin

section \<open>JavaScript strings and numbers\<close>

text \<open>
  A JavaScript string is modelled as a \<^typ>\<open>string\<close>, one \<^typ>\<open>char\<close> per
  UTF-16 code unit, for the code units \<open>0..255\<close>.  The order on \<^typ>\<open>char\<close> is the
  order of the codes and the order on \<^typ>\<open>string\<close> is the lexicographic one, which is
  how \<^verbatim>\<open>Array.prototype.sort\<close> without a comparator orders strings.

  Numbers that the program renders into strings (\<^verbatim>\<open>Date.now()\<close>, loop counters, the
  chain identifier) are non-negative integers below \<open>2^53\<close> and are modelled as \<^typ>\<open>nat\<close>.
\<close>

text \<open>
  \<^verbatim>\<open>Number.prototype.toString(radix)\<close> on a non-negative integer, for a radix
  between 2 and 36 (the program uses 16 and the default 10; any other radix outside
  that range is a RangeError in JavaScript and is not called here).
\<close>

definition digit_char :: "nat \<Rightarrow> char" where
  "digit_char d = ''0123456789abcdefghijklmnopqrstuvwxyz'' ! d"

function number_toString :: "nat \<Rightarrow> nat \<Rightarrow> string" where
  "number_toString radix n =
     (if n < radix \<or> radix < 2 then [digit_char n]
      else number_toString radix (n div radix) @ [digit_char (n mod radix)])"
  by pat_completeness auto
termination
  by (relation "measure (\<lambda>(radix, n). n)") auto

declare number_toString.simps [simp del]

text \<open>Template-literal interpolation \<^verbatim>\<open>`${n}`\<close> and \<^verbatim>\<open>n.toString()\<close>: decimal.\<close>

definition decimal :: "nat \<Rightarrow> string" where
  "decimal n = number_toString 10 n"

subsection \<open>Character classes and string methods\<close>

text \<open>
  The regular-expression class \<^verbatim>\<open>\w\<close> is \<^verbatim>\<open>[A-Za-z0-9_]\<close> (the flag \<^verbatim>\<open>i\<close>
  without \<^verbatim>\<open>u\<close> adds no character to it), and \<^verbatim>\<open>\s\<close> is, among the code units
  below 256, tab, line feed, vertical tab, form feed, carriage return, space and the
  no-break space.
\<close>

definition is_word_char :: "char \<Rightarrow> bool" where
  "is_word_char c =
     (let n = (of_char c :: nat)
      in (48 \<le> n \<and> n \<le> 57) \<or> (65 \<le> n \<and> n \<le> 90) \<or> n = 95 \<or> (97 \<le> n \<and> n \<le> 122))"

definition is_white_space :: "char \<Rightarrow> bool" where
  "is_white_space c =
     (let n = (of_char c :: nat) in (9 \<le> n \<and> n \<le> 13) \<or> n = 32 \<or> n = 160)"

text \<open>
  \<^verbatim>\<open>String.prototype.toUpperCase\<close> on the characters of \<^verbatim>\<open>\w\<close>: the program only
  calls it on words from which every other character has been removed.
\<close>

definition upper_char :: "char \<Rightarrow> char" where
  "upper_char c =
     (let n = (of_char c :: nat) in if 97 \<le> n \<and> n \<le> 122 then char_of (n - 32) else c)"

definition toUpperCase :: "string \<Rightarrow> string" where
  "toUpperCase s = map upper_char s"

text \<open>The class \<^verbatim>\<open>[aeiou]\<close> under the flag \<^verbatim>\<open>i\<close>.\<close>

definition is_vowel :: "char \<Rightarrow> bool" where
  "is_vowel c = (upper_char c \<in> set ''AEIOU'')"

text \<open>
  \<^verbatim>\<open>s.split(/\s+/)\<close>: the pieces between the maximal runs of white space.  A run at
  the start or at the end leaves an empty piece there, and the empty string splits into
  one empty piece (the pattern does not match the empty string).
\<close>

function split_white_space :: "string \<Rightarrow> string list" where
  "split_white_space s =
     (let piece = takeWhile (\<lambda>c. \<not> is_white_space c) s;
          rest = dropWhile (\<lambda>c. \<not> is_white_space c) s
      in if rest = [] then [piece]
         else piece # split_white_space (dropWhile is_white_space rest))"
  by pat_completeness auto
termination
proof (relation "measure length")
  fix s piece rest
  assume rest: "rest = dropWhile (\<lambda>c. \<not> is_white_space c) s" and ne: "rest \<noteq> []"
  from ne obtain c cs where cs: "rest = c # cs" by (cases rest) auto
  with rest have "is_white_space c"
    by (metis (mono_tags, lifting) hd_dropWhile list.sel(1) ne)
  then have "length (dropWhile is_white_space rest) \<le> length cs"
    by (simp add: cs length_dropWhile_le)
  moreover have "length rest \<le> length s"
    by (simp add: rest length_dropWhile_le)
  ultimately show "(dropWhile is_white_space rest, s) \<in> measure length"
    by (simp add: cs)
qed simp

declare split_white_space.simps [simp del]

text \<open>\<^verbatim>\<open>s.replace(/\/+$/, '')\<close>: drop the whole run of slashes at the end.\<close>

definition strip_trailing_slashes :: "string \<Rightarrow> string" where
  "strip_trailing_slashes s = rev (dropWhile (\<lambda>c. c = CHR ''/'') (rev s))"

text \<open>\<^verbatim>\<open>s.replace(/\/$/, '')\<close>: drop one slash at the end, if there is one.\<close>

definition strip_one_trailing_slash :: "string \<Rightarrow> string" where
  "strip_one_trailing_slash s =
     (if s \<noteq> [] \<and> last s = CHR ''/'' then butlast s else s)"

text \<open>\<^verbatim>\<open>s.replace(/^\/+/, '')\<close>: drop the run of slashes at the start.\<close>

definition strip_leading_slashes :: "string \<Rightarrow> string" where
  "strip_leading_slashes s = dropWhile (\<lambda>c. c = CHR ''/'') s"

text \<open>\<^verbatim>\<open>s.startsWith(p)\<close> and \<^verbatim>\<open>s.includes(p)\<close>.\<close>

definition startsWith :: "string \<Rightarrow> string \<Rightarrow> bool" where
  "startsWith s p = (take (length p) s = p)"

fun includes_str :: "string \<Rightarrow> string \<Rightarrow> bool" where
  "includes_str [] p = (p = [])"
| "includes_str (c # cs) p = (startsWith (c # cs) p \<or> includes_str cs p)"

text \<open>Errors a JavaScript function of this program can throw.\<close>

datatype js_error = TypeError string | Error string

fun message :: "js_error \<Rightarrow> string" where
  "message (TypeError m) = m"
| "message (Error m) = m"

text \<open>\<^verbatim>\<open>a || b\<close> on a string that may be undefined: an absent or empty \<open>a\<close> gives \<open>b\<close>.\<close>

definition or_else :: "string option \<Rightarrow> string \<Rightarrow> string" where
  "or_else a b = (case a of None \<Rightarrow> b | Some v \<Rightarrow> if v = [] then b else v)"

text \<open>Truthiness of a string and of a string that may be null.\<close>

definition truthy :: "string \<Rightarrow> bool" where
  "truthy v = (v \<noteq> [])"

definition truthy_opt :: "string option \<Rightarrow> bool" where
  "truthy_opt a = (case a of None \<Rightarrow> False | Some v \<Rightarrow> truthy v)"

section \<open>Shared configuration constants (config/constants.ts)\<close>

definition CHAIN_ID_DECIMAL :: nat where
  "CHAIN_ID_DECIMAL = 393"

definition NEXUS_CHAIN_ID_HEX :: string where
  "NEXUS_CHAIN_ID_HEX = ''0x'' @ number_toString 16 CHAIN_ID_DECIMAL"

definition NEXUS_RPC_URL :: string where
  "NEXUS_RPC_URL = ''https://rpc.nexus.xyz/http''"

definition NEXUS_EXPLORER_URL :: string where
  "NEXUS_EXPLORER_URL = ''https://explorer.nexus.xyz''"

section \<open>Symbol derivation (app/page.tsx)\<close>

text \<open>
  \<^verbatim>\<open>generateNFTSymbol\<close>.  The name is first stripped of every character outside
  \<^verbatim>\<open>[\w\s]\<close> and split at white space.  \<^verbatim>\<open>word[0].toUpperCase()\<close> on an empty word
  reads \<^verbatim>\<open>undefined\<close> and throws a TypeError.
\<close>

definition strip_special :: "string \<Rightarrow> string" where
  "strip_special name = filter (\<lambda>c. is_word_char c \<or> is_white_space c) name"

fun initial_of :: "string \<Rightarrow> js_error + string" where
  "initial_of [] =
     Inl (TypeError ''Cannot read properties of undefined (reading 'toUpperCase')'')"
| "initial_of (c # cs) = Inr (toUpperCase [c])"

fun initials_of :: "string list \<Rightarrow> js_error + string" where
  "initials_of [] = Inr []"
| "initials_of (w # ws) =
     (case initial_of w of
        Inl e \<Rightarrow> Inl e
      | Inr i \<Rightarrow> (case initials_of ws of Inl e \<Rightarrow> Inl e | Inr is \<Rightarrow> Inr (i @ is)))"

definition generateNFTSymbol :: "string \<Rightarrow> js_error + string" where
  "generateNFTSymbol name =
     (let words = split_white_space (strip_special name)
      in if length words = 0 then Inr ''NFT''
         else if length words = 1 then
           (let word = toUpperCase (words ! 0)
            in if length word \<le> 4 then Inr word
               else (let consonants = filter (\<lambda>c. \<not> is_vowel c) word
                     in if length consonants \<ge> 3 then Inr (take 4 consonants)
                        else Inr (take 4 word)))
         else (case initials_of words of
                 Inl e \<Rightarrow> Inl e
               | Inr initials \<Rightarrow> Inr (take 4 initials)))"

section \<open>The server: environment and upload storage\<close>

text \<open>
  The directory \<^verbatim>\<open>public/uploads\<close> under the working directory is absent
  (\<open>None\<close>) or holds named entries, files and subdirectories, listed in the order
  \<^verbatim>\<open>readdirSync\<close> returns them.  Paths are absolute and are lists of segments;
  \<^verbatim>\<open>cwd\<close> is \<^verbatim>\<open>process.cwd()\<close>.  The file system outside the uploads directory is
  not modelled in detail: \<^verbatim>\<open>outside_files\<close> records what the program wrote there.

  A file-system call that fails throws.  \<^verbatim>\<open>readdir_fault\<close> and \<^verbatim>\<open>mkdir_fault\<close> say
  whether reading and creating the uploads directory fail and with what error.
  \<^verbatim>\<open>writeFile_fault\<close> says, for each path, whether the operating system refuses or
  interrupts a write there (permissions, a read-only or full device, a name that is too
  long, a missing directory outside the uploads directory): a refused write leaves
  nothing, an interrupted write leaves the bytes written so far.
\<close>

datatype node = RegularFile "nat list" | Directory "(string \<times> node) list"

datatype write_fault = Refused js_error | Interrupted js_error "nat list"

record server =
  cwd :: "string list"
  uploads :: "(string \<times> node) list option"
  outside_files :: "(string list \<times> nat list) list"
  readdir_fault :: "js_error option"
  mkdir_fault :: "js_error option"
  writeFile_fault :: "string list \<Rightarrow> write_fault option"

record env =
  NEXT_PUBLIC_API_URL :: "string option"
  NEXT_PUBLIC_WEBSITE_URL :: "string option"

record 'b response =
  status :: nat
  headers :: "(string \<times> string) list"
  body :: 'b

section \<open>Metadata endpoint (app/api/metadata/[tokenId]/route.ts)\<close>

datatype attr_value = StringValue string | NumberValue nat

record attribute =
  trait_type :: string
  attr_value :: attr_value
  display_type :: "string option"

record NFTMetadata =
  md_name :: string
  md_description :: string
  md_image :: string
  md_external_url :: string
  md_attributes :: "attribute list"

datatype metadata_body = Metadata NFTMetadata | MetadataError string

fun typeof :: "attr_value \<Rightarrow> string" where
  "typeof (StringValue v) = ''string''"
| "typeof (NumberValue v) = ''number''"

definition validateMetadata :: "NFTMetadata \<Rightarrow> bool" where
  "validateMetadata metadata =
     (truthy (md_name metadata) \<and>
      truthy (md_description metadata) \<and>
      truthy (md_image metadata) \<and>
      truthy (md_external_url metadata) \<and>
      list_all (\<lambda>attr. truthy (trait_type attr) \<and>
                 (typeof (attr_value attr) = ''string'' \<or> typeof (attr_value attr) = ''number''))
        (md_attributes metadata))"

text \<open>
  \<^verbatim>\<open>findUploadedImage\<close>: \<^verbatim>\<open>tokenFiles.sort().reverse()[0]\<close> is the first element of the
  reversed sorted list; the list is not empty there.
\<close>

definition findUploadedImage :: "server \<Rightarrow> string \<Rightarrow> js_error + string option" where
  "findUploadedImage srv tokenId =
     (case uploads srv of
        None \<Rightarrow> Inr None
      | Some entries \<Rightarrow>
          (case readdir_fault srv of
             Some e \<Rightarrow> Inl e
           | None \<Rightarrow>
               (let files = map fst entries;
                    tokenFiles = filter (\<lambda>file. startsWith file (''token-'' @ tokenId @ ''-'')) files
                in if length tokenFiles = 0 then Inr None
                   else (let mostRecent = rev (sort tokenFiles) ! 0
                         in Inr (Some (''/uploads/'' @ mostRecent))))))"

definition build_metadata :: "string \<Rightarrow> string \<Rightarrow> string option \<Rightarrow> nat \<Rightarrow> string \<Rightarrow> NFTMetadata" where
  "build_metadata apiUrl websiteUrl uploadedImage now tokenId =
     \<lparr> md_name = ''MyNFT #'' @ tokenId,
       md_description = ''NFT #'' @ tokenId @ '' on the Nexus network.'',
       md_image = (if truthy_opt uploadedImage then apiUrl @ the uploadedImage
                   else apiUrl @ ''/api/image/'' @ tokenId),
       md_external_url = websiteUrl @ ''/nft/'' @ tokenId,
       md_attributes =
         [\<lparr> trait_type = ''Token ID'', attr_value = StringValue tokenId, display_type = None \<rparr>,
          \<lparr> trait_type = ''Image Type'',
            attr_value = StringValue (if truthy_opt uploadedImage then ''Uploaded'' else ''Generated''),
            display_type = None \<rparr>,
          \<lparr> trait_type = ''Created'', attr_value = NumberValue (now div 1000),
            display_type = Some ''date'' \<rparr>] \<rparr>"

definition metadata_failure :: "js_error \<Rightarrow> metadata_body response" where
  "metadata_failure e =
     \<lparr> status = 500,
       headers = [(''Content-Type'', ''application/json'')],
       body = MetadataError (or_else (Some (message e)) ''Failed to generate metadata'') \<rparr>"

text \<open>
  The handler \<^verbatim>\<open>GET\<close>, given the environment, the server's storage, the value of
  \<^verbatim>\<open>Date.now()\<close> in milliseconds and the path parameter.
\<close>

definition GET :: "env \<Rightarrow> server \<Rightarrow> nat \<Rightarrow> string \<Rightarrow> metadata_body response" where
  "GET ev srv now tokenId =
     (let apiUrl = or_else (NEXT_PUBLIC_API_URL ev) ''http://localhost:3000'';
          websiteUrl = or_else (NEXT_PUBLIC_WEBSITE_URL ev) ''http://localhost:3000''
      in case findUploadedImage srv tokenId of
           Inl e \<Rightarrow> metadata_failure e
         | Inr uploadedImage \<Rightarrow>
             (let metadata = build_metadata apiUrl websiteUrl uploadedImage now tokenId
              in if \<not> validateMetadata metadata
                 then metadata_failure (Error ''Invalid metadata structure'')
                 else \<lparr> status = 200,
                        headers = [(''Content-Type'', ''application/json''),
                                   (''Cache-Control'', ''public, max-age=31536000, immutable'')],
                        body = Metadata metadata \<rparr>))"

section \<open>Image upload endpoint (the POST handler behind /api/upload)\<close>







subsection \<open>Paths\<close>



type_synonym path = "string list \<times> bool"



subsection \<open>Writing\<close>








section \<open>Collection gallery (app/collection/[address]/page.tsx)\<close>

text \<open>
  What the gallery reads from outside: the contract's \<^verbatim>\<open>totalSupply()\<close> and
  \<^verbatim>\<open>tokenURI(i)\<close>, each of which may throw, the outcome of the one \<^verbatim>\<open>fetch\<close> made
  while token \<open>i\<close> is processed, and the base URL of the API.  The parsed JSON body
  has the arbitrary type \<open>'m\<close>.  The total supply is below \<open>2^53\<close>, where
  \<^verbatim>\<open>Number(totalSupply)\<close> is exact.
\<close>

record 'm http_response =
  ok :: bool
  http_status :: nat
  content_type :: "string option"
  text_body :: "js_error + string"
  json_body :: "js_error + 'm"

record 'm gallery_world =
  totalSupply :: "js_error + nat"
  tokenURI :: "nat \<Rightarrow> js_error + string"
  fetch :: "nat \<Rightarrow> string \<Rightarrow> js_error + 'm http_response"
  api_url :: "string option"
  origin :: string

record 'm nft =
  nft_tokenId :: string
  nft_metadata :: "'m option"

definition metadataURL :: "string \<Rightarrow> string \<Rightarrow> nat \<Rightarrow> string" where
  "metadataURL baseURL uri i =
     (if \<not> startsWith uri ''http''
      then (if includes_str uri ''api/metadata/''
            then strip_trailing_slashes baseURL @ ''/'' @ strip_leading_slashes uri
            else strip_trailing_slashes baseURL @ ''/api/metadata/'' @ decimal i)
      else uri)"

text \<open>
  The body of the inner \<^verbatim>\<open>try\<close> for token \<open>i\<close>: it gives the entry it pushes, or
  the error it throws.
\<close>

definition fetch_token :: "'m gallery_world \<Rightarrow> nat \<Rightarrow> js_error + 'm nft" where
  "fetch_token w i =
     (case tokenURI w i of
        Inl e \<Rightarrow> Inl e
      | Inr uri \<Rightarrow>
          if \<not> truthy uri then Inr \<lparr> nft_tokenId = decimal i, nft_metadata = None \<rparr>
          else
            (case fetch w i (metadataURL (or_else (api_url w) (origin w)) uri i) of
               Inl e \<Rightarrow> Inl e
             | Inr response \<Rightarrow>
                 if \<not> ok response then
                   (case text_body response of
                      Inl e \<Rightarrow> Inl e
                    | Inr errorText \<Rightarrow>
                        Inl (Error (''HTTP error! status: '' @ decimal (http_status response))))
                 else if \<not> truthy_opt (content_type response) \<or>
                         \<not> includes_str (the (content_type response)) ''application/json'' then
                   (case text_body response of
                      Inl e \<Rightarrow> Inl e
                    | Inr txt \<Rightarrow>
                        Inl (Error (''Invalid content type: '' @
                               (case content_type response of None \<Rightarrow> ''null'' | Some c \<Rightarrow> c))))
                 else
                   (case json_body response of
                      Inl e \<Rightarrow> Inl e
                    | Inr metadata \<Rightarrow>
                        Inr \<lparr> nft_tokenId = decimal i, nft_metadata = Some metadata \<rparr>)))"

text \<open>One iteration of the loop: the inner \<^verbatim>\<open>catch\<close> pushes an entry without metadata.\<close>

definition token_entry :: "'m gallery_world \<Rightarrow> nat \<Rightarrow> 'm nft" where
  "token_entry w i =
     (case fetch_token w i of
        Inl e \<Rightarrow> \<lparr> nft_tokenId = decimal i, nft_metadata = None \<rparr>
      | Inr entry \<Rightarrow> entry)"

text \<open>\<^verbatim>\<open>for (let i = 1; i <= Number(totalSupply); i++)\<close>, from the counter \<open>i\<close> on.\<close>

function fetch_loop :: "'m gallery_world \<Rightarrow> nat \<Rightarrow> nat \<Rightarrow> 'm nft list \<Rightarrow> 'm nft list" where
  "fetch_loop w n i nfts =
     (if i \<le> n then fetch_loop w n (i + 1) (nfts @ [token_entry w i]) else nfts)"
  by pat_completeness auto
termination
  by (relation "measure (\<lambda>(w, n, i, nfts). n + 1 - i)") auto

declare fetch_loop.simps [simp del]

text \<open>
  \<^verbatim>\<open>fetchCollectionNFTs\<close>, from the value of the state variable \<^verbatim>\<open>nfts\<close> to its
  value afterwards; the outer \<^verbatim>\<open>catch\<close> logs the error and leaves the state as it was.
\<close>

definition fetchCollectionNFTs_try :: "'m gallery_world \<Rightarrow> js_error + 'm nft list" where
  "fetchCollectionNFTs_try w =
     (case totalSupply w of
        Inl e \<Rightarrow> Inl e
      | Inr n \<Rightarrow> if n = 0 then Inr [] else Inr (fetch_loop w n 1 []))"

definition fetchCollectionNFTs :: "'m gallery_world \<Rightarrow> 'm nft list \<Rightarrow> js_error + 'm nft list" where
  "fetchCollectionNFTs w state =
     (case fetchCollectionNFTs_try w of
        Inl e \<Rightarrow> Inr state
      | Inr nfts \<Rightarrow> Inr nfts)"

section \<open>Network switching (app/page.tsx)\<close>

record native_currency =
  currency_name :: string
  currency_symbol :: string
  decimals :: nat

record add_chain_params =
  chainId :: string
  rpcUrls :: "string list"
  chainName :: string
  nativeCurrency :: native_currency

datatype rpc_request =
    Eth_chainId
  | Wallet_switchEthereumChain string
  | Wallet_addEthereumChain add_chain_params

datatype rpc_result = Null | Str string

text \<open>The value a rejected wallet request throws; \<^verbatim>\<open>code\<close> may be absent.\<close>

record wallet_error =
  code :: "int option"
  error_message :: string

text \<open>
  The wallet is a state machine: \<open>respond\<close> gives, for the wallet's state and a request,
  the outcome and the wallet's next state.  A session holds the wallet, the requests
  issued so far and the state variable \<^verbatim>\<open>isCorrectNetwork\<close>.
\<close>

type_synonym 'w provider = "'w \<Rightarrow> rpc_request \<Rightarrow> (wallet_error + rpc_result) \<times> 'w"

record 'w session =
  wallet :: 'w
  requests :: "rpc_request list"
  isCorrectNetwork :: bool

definition request :: "'w provider \<Rightarrow> 'w session \<Rightarrow> rpc_request \<Rightarrow> (wallet_error + rpc_result) \<times> 'w session" where
  "request respond s req =
     (case respond (wallet s) req of
        (r, w') \<Rightarrow> (r, s\<lparr>wallet := w', requests := requests s @ [req]\<rparr>))"

definition checkNetwork :: "'w provider \<Rightarrow> 'w session \<Rightarrow> (wallet_error + bool) \<times> 'w session" where
  "checkNetwork respond s =
     (case request respond s Eth_chainId of
        (Inl e, s1) \<Rightarrow> (Inl e, s1)
      | (Inr reported, s1) \<Rightarrow>
          (let isNexus = (reported = Str NEXUS_CHAIN_ID_HEX)
           in (Inr isNexus, s1\<lparr>isCorrectNetwork := isNexus\<rparr>)))"

definition nexus_chain_params :: add_chain_params where
  "nexus_chain_params =
     \<lparr> chainId = NEXUS_CHAIN_ID_HEX,
       rpcUrls = [NEXUS_RPC_URL],
       chainName = ''Nexus Testnet'',
       nativeCurrency = \<lparr> currency_name = ''NEXUS'', currency_symbol = ''NEXUS'', decimals = 18 \<rparr> \<rparr>"

text \<open>
  \<^verbatim>\<open>switchNetwork\<close>; \<open>None\<close> for the provider is a page without \<^verbatim>\<open>window.ethereum\<close>.
  The first \<^verbatim>\<open>try\<close> holds the switch request and the check after it, the second
  the add request and the check after it.
\<close>

definition switchNetwork :: "'w provider option \<Rightarrow> 'w session \<Rightarrow> bool \<times> 'w session" where
  "switchNetwork ethereum s =
     (case ethereum of
        None \<Rightarrow> (False, s)
      | Some respond \<Rightarrow>
          (case (case request respond s (Wallet_switchEthereumChain NEXUS_CHAIN_ID_HEX) of
                   (Inl e, s1) \<Rightarrow> (Inl e, s1)
                 | (Inr r, s1) \<Rightarrow> checkNetwork respond s1) of
             (Inr isNexus, s2) \<Rightarrow> (isNexus, s2)
           | (Inl switchError, s2) \<Rightarrow>
               if code switchError = Some 4902 then
                 (case (case request respond s2 (Wallet_addEthereumChain nexus_chain_params) of
                          (Inl e, s3) \<Rightarrow> (Inl e, s3)
                        | (Inr r, s3) \<Rightarrow> checkNetwork respond s3) of
                    (Inr isNexus, s4) \<Rightarrow> (isNexus, s4)
                  | (Inl addError, s4) \<Rightarrow> (False, s4))
               else (False, s2)))"

section \<open>Deployment: the landing screen and the script\<close>

datatype contract_call =
    Deploy string string string
  | SetBaseURI string
  | Mint

text \<open>
  The landing screen (\<^verbatim>\<open>deployNFT\<close> in app/page.tsx): the base URI it passes to
  \<^verbatim>\<open>setBaseURI\<close> after the deployment is confirmed, and the contract calls it issues
  when every check and every transaction succeeds.
\<close>

definition landing_baseUri :: "string \<Rightarrow> string" where
  "landing_baseUri apiUrl = strip_trailing_slashes apiUrl @ ''/api/metadata/''"

definition deployNFT_calls :: "string \<Rightarrow> string \<Rightarrow> string \<Rightarrow> js_error + contract_call list" where
  "deployNFT_calls nftName apiUrl signerAddress =
     (case generateNFTSymbol nftName of
        Inl e \<Rightarrow> Inl e
      | Inr symbol \<Rightarrow>
          Inr [Deploy nftName symbol signerAddress, SetBaseURI (landing_baseUri apiUrl)])"

text \<open>
  The script (contracts/scripts/deploy.ts).  Its \<^verbatim>\<open>main\<close> reads the API URL from the
  environment and the deployer from the signers; a contract call may fail.  It gives
  the contract calls it issued and the error it caught, if any.
\<close>

record script_world =
  env_api_url :: "string option"
  deployer_address :: string
  deploy_fault :: "js_error option"
  mint_fault :: "js_error option"

definition script_baseUri :: "string \<Rightarrow> string" where
  "script_baseUri apiUrl = strip_one_trailing_slash apiUrl @ ''/api/metadata/''"

definition main :: "script_world \<Rightarrow> contract_call list \<times> js_error option" where
  "main w =
     (if \<not> truthy_opt (env_api_url w)
      then ([], Some (Error ''NEXT_PUBLIC_API_URL environment variable is not set''))
      else
        (let baseUri = script_baseUri (the (env_api_url w));
             deploy = Deploy ''Nexus NFT Collection'' ''NNFT'' baseUri
         in case deploy_fault w of
              Some e \<Rightarrow> ([deploy], Some e)
            | None \<Rightarrow>
                (case mint_fault w of
                   Some e \<Rightarrow> ([deploy, Mint], Some e)
                 | None \<Rightarrow> ([deploy, Mint], None))))"

section \<open>Auxiliary functions for the statements\<close>

text \<open>Words joined by single spaces, to state the symbol of a name of several words.\<close>

fun join_words :: "string list \<Rightarrow> string" where
  "join_words [] = []"
| "join_words [w] = w"
| "join_words (w # v # ws) = w @ '' '' @ join_words (v # ws)"

text \<open>The value of a string of lower-case hexadecimal digits.\<close>

definition hex_digit_value :: "char \<Rightarrow> nat" where
  "hex_digit_value c =
     (let n = (of_char c :: nat) in if 97 \<le> n then n - 87 else n - 48)"

fun hex_value :: "string \<Rightarrow> nat" where
  "hex_value [] = 0"
| "hex_value (c # cs) = hex_digit_value c * 16 ^ length cs + hex_value cs"





section \<open>Example inputs\<close>

definition example_env :: env where
  "example_env = \<lparr> NEXT_PUBLIC_API_URL = Some ''https://api.example.com'',
                    NEXT_PUBLIC_WEBSITE_URL = None \<rparr>"

definition example_server :: server where
  "example_server =
     \<lparr> cwd = [''app''],
       uploads = Some [(''token-1-1700000000000-cat.png'', RegularFile [1]),
                       (''token-2-1700000000005-dog.png'', RegularFile [3]),
                       (''token-1-1700000000001-cat.png'', RegularFile [2])],
       outside_files = [],
       readdir_fault = None, mkdir_fault = None, writeFile_fault = (\<lambda>p. None) \<rparr>"













definition example_response :: "bool \<Rightarrow> string http_response" where
  "example_response good =
     (if good
      then \<lparr> ok = True, http_status = 200, content_type = Some ''application/json'',
             text_body = Inr ''metadata'', json_body = Inr ''metadata'' \<rparr>
      else \<lparr> ok = False, http_status = 500, content_type = Some ''application/json'',
             text_body = Inr ''Internal Server Error'', json_body = Inl (Error ''Unexpected token'') \<rparr>)"

definition example_gallery :: "string gallery_world" where
  "example_gallery =
     \<lparr> totalSupply = Inr 3,
       tokenURI = (\<lambda>i. Inr (''https://api.example.com/api/metadata/'' @ decimal i)),
       fetch = (\<lambda>i url. Inr (example_response (i \<noteq> 2))),
       api_url = None,
       origin = ''https://app.example.com'' \<rparr>"

text \<open>Example wallets (state: the chain the wallet is on).\<close>

definition rejecting_wallet :: "string provider" where
  "rejecting_wallet chain req =
     (case req of
        Eth_chainId \<Rightarrow> (Inr (Str chain), chain)
      | Wallet_switchEthereumChain target \<Rightarrow>
          (Inl \<lparr> code = Some 4902, error_message = ''Unrecognized chain ID'' \<rparr>, chain)
      | Wallet_addEthereumChain params \<Rightarrow>
          (Inl \<lparr> code = Some 4001, error_message = ''User rejected the request.'' \<rparr>, chain))"

definition accepting_wallet :: "string provider" where
  "accepting_wallet chain req =
     (case req of
        Eth_chainId \<Rightarrow> (Inr (Str chain), chain)
      | Wallet_switchEthereumChain target \<Rightarrow>
          (Inl \<lparr> code = Some 4902, error_message = ''Unrecognized chain ID'' \<rparr>, chain)
      | Wallet_addEthereumChain params \<Rightarrow> (Inr Null, chainId params))"

definition locked_wallet :: "string provider" where
  "locked_wallet chain req =
     (case req of
        Eth_chainId \<Rightarrow> (Inr (Str chain), chain)
      | Wallet_switchEthereumChain target \<Rightarrow>
          (Inl \<lparr> code = Some 4001, error_message = ''User rejected the request.'' \<rparr>, chain)
      | Wallet_addEthereumChain params \<Rightarrow> (Inr Null, chainId params))"

definition example_session :: "string session" where
  "example_session = \<lparr> wallet = ''0x1'', requests = [], isCorrectNetwork = False \<rparr>"

definition example_script_world :: script_world where
  "example_script_world =
     \<lparr> env_api_url = Some ''http://localhost:3000'',
       deployer_address = ''0xf39Fd6e51aad88F6F4ce6aB8827279cffFb92266'',
       deploy_fault = None, mint_fault = None \<rparr>"

section \<open>Properties of the string helpers\<close>

lemma split_white_space_not_Nil: "split_white_space s \<noteq> []"
  by (subst split_white_space.simps) (simp add: Let_def)

lemma split_white_space_no_space:
  assumes "\<forall>c \<in> set s. \<not> is_white_space c"
  shows "split_white_space s = [s]"
proof -
  from assms have "takeWhile (\<lambda>c. \<not> is_white_space c) s = s"
    and "dropWhile (\<lambda>c. \<not> is_white_space c) s = []"
    by simp_all
  then show ?thesis
    by (subst split_white_space.simps) (simp add: Let_def)
qed








lemma decimal_not_Nil: "decimal n \<noteq> []"
  unfolding decimal_def by (subst number_toString.simps) simp









lemma sorted_last_Max:
  "sorted xs \<Longrightarrow> xs \<noteq> [] \<Longrightarrow> last xs = Max (set xs)"
proof (induction xs)
  case Nil
  then show ?case by simp
next
  case (Cons x xs)
  show ?case
  proof (cases "xs = []")
    case True
    then show ?thesis by simp
  next
    case False
    with Cons have "last xs = Max (set xs)" by simp
    moreover from Cons.prems have "\<forall>y \<in> set xs. x \<le> y" by simp
    moreover have "Max (set xs) \<in> set xs"
      using False by (intro Max_in) simp_all
    ultimately have "max x (Max (set xs)) = Max (set xs)"
      by (simp add: max_absorb2)
    moreover note \<open>last xs = Max (set xs)\<close>
    ultimately show ?thesis using False by simp
  qed
qed

lemma rev_sort_first:
  assumes "xs \<noteq> []"
  shows "rev (sort xs) ! 0 = Max (set (xs :: 'a::linorder list))"
proof -
  from assms have ne: "sort xs \<noteq> []" by (metis length_0_conv length_sort)
  then have "rev (sort xs) ! 0 = last (sort xs)"
    by (metis hd_conv_nth hd_rev rev_is_Nil_conv)
  also have "\<dots> = Max (set (sort xs))"
    using ne by (intro sorted_last_Max) simp_all
  finally show ?thesis by simp
qed


lemma strip_trailing_slashes_snoc:
  "strip_trailing_slashes (s @ [c]) =
     (if c = CHR ''/'' then strip_trailing_slashes s else s @ [c])"
  by (simp add: strip_trailing_slashes_def)

lemma strip_trailing_slashes_fixed:
  "(strip_trailing_slashes s = s) = (s = [] \<or> last s \<noteq> CHR ''/'')"
proof (cases s rule: rev_cases)
  case Nil
  then show ?thesis by (simp add: strip_trailing_slashes_def)
next
  case (snoc v c)
  have le: "length (strip_trailing_slashes v) \<le> length v"
    using length_dropWhile_le [of "\<lambda>c. c = CHR ''/''" "rev v"]
    by (simp add: strip_trailing_slashes_def)
  have neq: "strip_trailing_slashes v \<noteq> v @ [c]"
  proof
    assume "strip_trailing_slashes v = v @ [c]"
    then have "length (strip_trailing_slashes v) = Suc (length v)" by simp
    with le show False by simp
  qed
  show ?thesis
  proof (cases "c = CHR ''/''")
    case True
    with neq show ?thesis
      unfolding snoc strip_trailing_slashes_snoc by simp
  next
    case False
    then show ?thesis
      unfolding snoc strip_trailing_slashes_snoc by simp
  qed
qed

lemma strip_trailing_slashes_no_slash:
  "strip_trailing_slashes s = [] \<or> last (strip_trailing_slashes s) \<noteq> CHR ''/''"
proof (induction s rule: rev_induct)
  case Nil
  then show ?case by (simp add: strip_trailing_slashes_def)
next
  case (snoc c v)
  then show ?case by (simp add: strip_trailing_slashes_snoc)
qed

lemma strip_trailing_slashes_replicate:
  "\<exists>k. s = strip_trailing_slashes s @ replicate k CHR ''/''"
proof (induction s rule: rev_induct)
  case Nil
  then show ?case by (simp add: strip_trailing_slashes_def)
next
  case (snoc c v)
  show ?case
  proof (cases "c = CHR ''/''")
    case True
    from snoc obtain k where k: "v = strip_trailing_slashes v @ replicate k CHR ''/''" ..
    have "strip_trailing_slashes (v @ [c]) @ replicate (Suc k) CHR ''/''
          = (strip_trailing_slashes v @ replicate k CHR ''/'') @ [c]"
      using True by (simp add: strip_trailing_slashes_snoc replicate_append_same)
    also have "\<dots> = v @ [c]"
      using k by (rule arg_cong [where f = "\<lambda>x. x @ [c]", symmetric])
    finally have "v @ [c] = strip_trailing_slashes (v @ [c]) @ replicate (Suc k) CHR ''/''"
      by (rule sym)
    then show ?thesis ..
  next
    case False
    then have "v @ [c] = strip_trailing_slashes (v @ [c]) @ replicate 0 CHR ''/''"
      by (simp add: strip_trailing_slashes_snoc)
    then show ?thesis ..
  qed
qed

lemma startsWith_append: "startsWith (p @ s) p"
  by (simp add: startsWith_def)

lemma includes_str_Nil: "includes_str s []"
  by (induction s) (simp_all add: startsWith_def)

section \<open>Properties of the configuration constants\<close>

lemma NEXUS_CHAIN_ID_HEX_value: "NEXUS_CHAIN_ID_HEX = ''0x189''"
  by (simp add: NEXUS_CHAIN_ID_HEX_def CHAIN_ID_DECIMAL_def number_toString.simps digit_char_def)

lemma hex_digit_cases:
  "d < 16 \<Longrightarrow> d = 0 \<or> d = 1 \<or> d = 2 \<or> d = 3 \<or> d = 4 \<or> d = 5 \<or> d = 6 \<or> d = 7 \<or>
     d = 8 \<or> d = 9 \<or> d = 10 \<or> d = 11 \<or> d = 12 \<or> d = 13 \<or> d = 14 \<or> d = (15::nat)"
  by arith

lemma hex_digit_value_digit_char: "d < 16 \<Longrightarrow> hex_digit_value (digit_char d) = d"
  using hex_digit_cases [of d] by (auto simp: hex_digit_value_def digit_char_def)

lemma hex_value_snoc: "hex_value (cs @ [c]) = hex_value cs * 16 + hex_digit_value c"
  by (induction cs) (simp_all add: algebra_simps)

lemma hex_value_number_toString: "hex_value (number_toString 16 n) = n"
proof (induction "16::nat" n rule: number_toString.induct)
  case (1 n)
  show ?case
  proof (cases "n < 16")
    case True
    then show ?thesis
      by (subst number_toString.simps) (simp add: hex_digit_value_digit_char)
  next
    case False
    with 1 show ?thesis
      by (subst number_toString.simps) (simp add: hex_value_snoc hex_digit_value_digit_char)
  qed
qed

text \<open>
  Claim C9.  The hexadecimal chain identifier is computed from the decimal constant 393,
  as \<^verbatim>\<open>0x\<close> followed by its rendering in base 16; the computed value is the string
  \<^verbatim>\<open>0x189\<close>, and read back as a hexadecimal numeral it is 393.
\<close>

theorem chain_id_hex_derived:
  "CHAIN_ID_DECIMAL = 393 \<and>
   NEXUS_CHAIN_ID_HEX = ''0x'' @ number_toString 16 CHAIN_ID_DECIMAL \<and>
   NEXUS_CHAIN_ID_HEX = ''0x189'' \<and>
   hex_value (drop 2 NEXUS_CHAIN_ID_HEX) = CHAIN_ID_DECIMAL"
proof (intro conjI)
  show "CHAIN_ID_DECIMAL = 393"
    by (simp add: CHAIN_ID_DECIMAL_def)
  show "NEXUS_CHAIN_ID_HEX = ''0x'' @ number_toString 16 CHAIN_ID_DECIMAL"
    by (simp add: NEXUS_CHAIN_ID_HEX_def)
  show "NEXUS_CHAIN_ID_HEX = ''0x189''"
    by (simp add: NEXUS_CHAIN_ID_HEX_def CHAIN_ID_DECIMAL_def number_toString.simps
          digit_char_def)
  show "hex_value (drop 2 NEXUS_CHAIN_ID_HEX) = CHAIN_ID_DECIMAL"
    by (simp add: NEXUS_CHAIN_ID_HEX_def hex_value_number_toString)
qed

section \<open>Properties of the symbol derivation\<close>

text \<open>
  The split never gives an empty list, so the branch of \<^verbatim>\<open>generateNFTSymbol\<close> that
  returns \<^verbatim>\<open>NFT\<close> for zero words is never taken.
\<close>

lemma generateNFTSymbol_no_zero_words:
  "length (split_white_space (strip_special nm)) \<noteq> 0"
  by (simp add: split_white_space_not_Nil)

lemma generateNFTSymbol_examples:
  "generateNFTSymbol ''Cat'' = Inr ''CAT'' \<and>
   generateNFTSymbol ''Dragons'' = Inr ''DRGN'' \<and>
   generateNFTSymbol ''My Cool Collection'' = Inr ''MCC''"
  by code_simp

lemma word_char_not_white_space: "is_word_char c \<Longrightarrow> \<not> is_white_space c"
  by (auto simp: is_word_char_def is_white_space_def Let_def)

lemma generateNFTSymbol_single_word:
  assumes "\<forall>c \<in> set w. is_word_char c"
  shows "generateNFTSymbol w =
     Inr (let word = toUpperCase w
          in if length word \<le> 4 then word
             else (let consonants = filter (\<lambda>c. \<not> is_vowel c) word
                   in if length consonants \<ge> 3 then take 4 consonants else take 4 word))"
proof -
  from assms have "strip_special w = w"
    by (simp add: strip_special_def)
  moreover from assms have "split_white_space w = [w]"
    by (intro split_white_space_no_space) (simp add: word_char_not_white_space)
  ultimately show ?thesis
    by (simp add: generateNFTSymbol_def Let_def)
qed

lemma white_space_space: "is_white_space CHR '' ''"
  by (simp add: is_white_space_def)

lemma split_white_space_word_space:
  assumes w: "\<forall>c \<in> set w. \<not> is_white_space c"
    and r: "r \<noteq> []" "\<not> is_white_space (hd r)"
  shows "split_white_space (w @ '' '' @ r) = w # split_white_space r"
proof -
  have t: "takeWhile (\<lambda>c. \<not> is_white_space c) (w @ '' '' @ r) = w"
    using w white_space_space by simp
  have d: "dropWhile (\<lambda>c. \<not> is_white_space c) (w @ '' '' @ r) = '' '' @ r"
    using w white_space_space by simp
  have dd: "dropWhile is_white_space ('' '' @ r) = r"
    using r white_space_space by (cases r) simp_all
  show ?thesis
    by (subst split_white_space.simps) (simp only: t d dd Let_def, simp)
qed

lemma join_words_hd:
  "ws \<noteq> [] \<Longrightarrow> hd ws \<noteq> [] \<Longrightarrow> join_words ws \<noteq> [] \<and> hd (join_words ws) = hd (hd ws)"
  by (induction ws rule: join_words.induct) simp_all

lemma split_white_space_join_words:
  assumes "ws \<noteq> []" and "\<forall>w \<in> set ws. w \<noteq> [] \<and> (\<forall>c \<in> set w. is_word_char c)"
  shows "split_white_space (join_words ws) = ws"
  using assms
proof (induction ws rule: join_words.induct)
  case 1
  then show ?case by simp
next
  case (2 w)
  then show ?case
    by (simp add: split_white_space_no_space word_char_not_white_space)
next
  case (3 w v ws)
  then have ih: "split_white_space (join_words (v # ws)) = v # ws" by simp
  from 3 have v: "v \<noteq> []" "is_word_char (hd v)" by simp_all
  then have "join_words (v # ws) \<noteq> []" "hd (join_words (v # ws)) = hd v"
    using join_words_hd [of "v # ws"] by simp_all
  with v have r: "join_words (v # ws) \<noteq> []" "\<not> is_white_space (hd (join_words (v # ws)))"
    by (simp_all add: word_char_not_white_space)
  from 3 have w: "\<forall>c \<in> set w. \<not> is_white_space c"
    by (simp add: word_char_not_white_space)
  show ?case
    using split_white_space_word_space [OF w r] ih by simp
qed

lemma strip_special_join_words:
  assumes "\<forall>w \<in> set ws. \<forall>c \<in> set w. is_word_char c"
  shows "strip_special (join_words ws) = join_words ws"
  using assms
  by (induction ws rule: join_words.induct) (simp_all add: strip_special_def white_space_space)

lemma initials_of_words:
  assumes "\<forall>w \<in> set ws. w \<noteq> []"
  shows "initials_of ws = Inr (map (\<lambda>w. upper_char (hd w)) ws)"
  using assms
proof (induction ws)
  case Nil
  then show ?case by simp
next
  case (Cons w ws)
  then obtain c cs where "w = c # cs" by (cases w) auto
  with Cons show ?case by (simp add: toUpperCase_def)
qed

lemma generateNFTSymbol_multiple_words:
  assumes "2 \<le> length ws"
    and "\<forall>w \<in> set ws. w \<noteq> [] \<and> (\<forall>c \<in> set w. is_word_char c)"
  shows "generateNFTSymbol (join_words ws) = Inr (take 4 (map (\<lambda>w. upper_char (hd w)) ws))"
proof -
  from assms have ne: "ws \<noteq> []" by auto
  have "strip_special (join_words ws) = join_words ws"
    using assms(2) by (intro strip_special_join_words) simp
  moreover have "split_white_space (join_words ws) = ws"
    using ne assms(2) by (rule split_white_space_join_words)
  moreover have "initials_of ws = Inr (map (\<lambda>w. upper_char (hd w)) ws)"
    using assms(2) by (intro initials_of_words) simp
  moreover from assms(1) have "length ws \<noteq> 0" and "length ws \<noteq> 1" by auto
  ultimately show ?thesis
    by (simp add: generateNFTSymbol_def Let_def)
qed

text \<open>
  A name without any character of \<^verbatim>\<open>[\w\s]\<close> (the empty name among them) leaves the
  empty string, which splits into one empty word: the symbol is the empty string.
\<close>

lemma generateNFTSymbol_no_word_chars:
  assumes "\<forall>c \<in> set nm. \<not> is_word_char c \<and> \<not> is_white_space c"
  shows "generateNFTSymbol nm = Inr []"
proof -
  from assms have "strip_special nm = []"
    by (simp add: strip_special_def)
  moreover have "split_white_space [] = [[]]"
    by (subst split_white_space.simps) simp
  ultimately show ?thesis
    by (simp add: generateNFTSymbol_def toUpperCase_def)
qed

text \<open>
  A name that ends (or starts) with white space splits into words of which the last
  (or first) is empty, and taking its first letter throws.
\<close>

lemma generateNFTSymbol_trailing_space:
  "generateNFTSymbol ''Cat '' =
     Inl (TypeError ''Cannot read properties of undefined (reading 'toUpperCase')'')"
  by code_simp

text \<open>
  Claim C1.  The claim gives \<^verbatim>\<open>NFT\<close> as the symbol of the name \<^verbatim>\<open>!!!\<close>, in which no
  word remains.  The code splits the stripped, empty string into one empty word and
  returns it: the symbol is the empty string.
\<close>

theorem generateNFTSymbol_only_special_characters:
  "generateNFTSymbol ''!!!'' = Inr [] \<and> generateNFTSymbol ''!!!'' \<noteq> Inr ''NFT''"
  by code_simp

section \<open>Properties of the metadata endpoint\<close>

lemma validateMetadata_build_metadata:
  "validateMetadata (build_metadata apiUrl websiteUrl uploadedImage now tid)"
  by (cases uploadedImage)
     (auto simp: validateMetadata_def build_metadata_def truthy_def truthy_opt_def)


lemma findUploadedImage_cases:
  "findUploadedImage srv tid =
     (case uploads srv of
        None \<Rightarrow> Inr None
      | Some entries \<Rightarrow>
          (case readdir_fault srv of
             Some e \<Rightarrow> Inl e
           | None \<Rightarrow>
               (let tokenFiles = filter (\<lambda>file. startsWith file (''token-'' @ tid @ ''-''))
                                   (map fst entries)
                in if tokenFiles = [] then Inr None
                   else Inr (Some (''/uploads/'' @ Max (set tokenFiles))))))"
  by (simp add: findUploadedImage_def Let_def rev_sort_first split: option.splits)

lemma findUploadedImage_truthy:
  "findUploadedImage srv tid = Inr (Some path) \<Longrightarrow> truthy_opt (Some path)"
  by (auto simp: findUploadedImage_cases Let_def truthy_opt_def truthy_def
           split: option.splits if_splits)

lemma GET_cases:
  "GET ev srv now tid =
     (case findUploadedImage srv tid of
        Inl e \<Rightarrow> metadata_failure e
      | Inr uploaded \<Rightarrow>
          \<lparr> status = 200,
            headers = [(''Content-Type'', ''application/json''),
                       (''Cache-Control'', ''public, max-age=31536000, immutable'')],
            body = Metadata (build_metadata
                     (or_else (NEXT_PUBLIC_API_URL ev) ''http://localhost:3000'')
                     (or_else (NEXT_PUBLIC_WEBSITE_URL ev) ''http://localhost:3000'')
                     uploaded now tid) \<rparr>)"
  by (simp add: GET_def Let_def validateMetadata_build_metadata split: sum.splits)

text \<open>
  Claim C10.  The document the handler builds always passes \<^verbatim>\<open>validateMetadata\<close>,
  whatever the token identifier, the URLs, the upload and the time are.  So the handler
  never takes the branch that throws \<^verbatim>\<open>Invalid metadata structure\<close>: it answers 200
  with the document unless looking for the upload threw, and it answers 500 exactly when
  the uploads directory exists and reading it fails.
\<close>

theorem GET_validation_always_passes:
  "validateMetadata (build_metadata apiUrl websiteUrl uploadedImage now tid) \<and>
   GET ev srv now tid =
     (case findUploadedImage srv tid of
        Inl e \<Rightarrow> metadata_failure e
      | Inr uploaded \<Rightarrow>
          \<lparr> status = 200,
            headers = [(''Content-Type'', ''application/json''),
                       (''Cache-Control'', ''public, max-age=31536000, immutable'')],
            body = Metadata (build_metadata
                     (or_else (NEXT_PUBLIC_API_URL ev) ''http://localhost:3000'')
                     (or_else (NEXT_PUBLIC_WEBSITE_URL ev) ''http://localhost:3000'')
                     uploaded now tid) \<rparr>) \<and>
   (status (GET ev srv now tid) = 500) =
     (\<exists>entries e. uploads srv = Some entries \<and> readdir_fault srv = Some e)"
proof (intro conjI)
  show "validateMetadata (build_metadata apiUrl websiteUrl uploadedImage now tid)"
    by (rule validateMetadata_build_metadata)
  show "GET ev srv now tid =
     (case findUploadedImage srv tid of
        Inl e \<Rightarrow> metadata_failure e
      | Inr uploaded \<Rightarrow>
          \<lparr> status = 200,
            headers = [(''Content-Type'', ''application/json''),
                       (''Cache-Control'', ''public, max-age=31536000, immutable'')],
            body = Metadata (build_metadata
                     (or_else (NEXT_PUBLIC_API_URL ev) ''http://localhost:3000'')
                     (or_else (NEXT_PUBLIC_WEBSITE_URL ev) ''http://localhost:3000'')
                     uploaded now tid) \<rparr>)"
    by (rule GET_cases)
  show "(status (GET ev srv now tid) = 500) =
     (\<exists>entries e. uploads srv = Some entries \<and> readdir_fault srv = Some e)"
    by (auto simp: GET_cases findUploadedImage_cases metadata_failure_def Let_def
             split: option.splits sum.splits)
qed

text \<open>
  Claim C2.  A GET that answers 200 carries the document with name \<^verbatim>\<open>MyNFT #<id>\<close>,
  description \<^verbatim>\<open>NFT #<id> on the Nexus network.\<close>, as image the API base followed by
  \<^verbatim>\<open>/uploads/\<close> and the greatest stored file name that starts with \<^verbatim>\<open>token-<id>-\<close>
  when there is one (and by \<^verbatim>\<open>/api/image/<id>\<close> otherwise), as external URL the website
  base followed by \<^verbatim>\<open>/nft/<id>\<close>, and exactly the three attributes Token ID (the
  identifier as a string), Image Type (\<^verbatim>\<open>Uploaded\<close> when there is such a file, else
  \<^verbatim>\<open>Generated\<close>) and Created (of display type date, the request time in whole
  seconds).
\<close>

theorem GET_success_document:
  assumes ok: "status (GET ev srv now tid) = 200"
    and files: "tokenFiles =
      (case uploads srv of
         None \<Rightarrow> []
       | Some entries \<Rightarrow>
           filter (\<lambda>file. startsWith file (''token-'' @ tid @ ''-'')) (map fst entries))"
    and api: "apiUrl = or_else (NEXT_PUBLIC_API_URL ev) ''http://localhost:3000''"
    and web: "websiteUrl = or_else (NEXT_PUBLIC_WEBSITE_URL ev) ''http://localhost:3000''"
  shows "body (GET ev srv now tid) = Metadata
       \<lparr> md_name = ''MyNFT #'' @ tid,
         md_description = ''NFT #'' @ tid @ '' on the Nexus network.'',
         md_image =
           (if tokenFiles = [] then apiUrl @ ''/api/image/'' @ tid
            else apiUrl @ ''/uploads/'' @ Max (set tokenFiles)),
         md_external_url = websiteUrl @ ''/nft/'' @ tid,
         md_attributes =
           [\<lparr> trait_type = ''Token ID'', attr_value = StringValue tid, display_type = None \<rparr>,
            \<lparr> trait_type = ''Image Type'',
              attr_value = StringValue (if tokenFiles = [] then ''Generated'' else ''Uploaded''),
              display_type = None \<rparr>,
            \<lparr> trait_type = ''Created'', attr_value = NumberValue (now div 1000),
              display_type = Some ''date'' \<rparr>] \<rparr>"
proof -
  from ok have found: "findUploadedImage srv tid =
      Inr (if tokenFiles = [] then None else Some (''/uploads/'' @ Max (set tokenFiles)))"
    by (auto simp: GET_cases findUploadedImage_cases metadata_failure_def files Let_def
             split: option.splits sum.splits)
  show ?thesis
  proof (cases "tokenFiles = []")
    case True
    with found show ?thesis
      by (simp add: GET_cases build_metadata_def truthy_opt_def api web)
  next
    case False
    with found show ?thesis
      by (simp add: GET_cases build_metadata_def truthy_opt_def truthy_def api web)
  qed
qed

text \<open>
  Witness for C2: the example server holds two uploads for token 1, and the request at
  time 1700000000999 ms answers 200 with the document built from the later one.
\<close>

theorem GET_success_document_witness:
  "status (GET example_env example_server 1700000000999 ''1'') = 200 \<and>
   body (GET example_env example_server 1700000000999 ''1'') = Metadata
       \<lparr> md_name = ''MyNFT #1'',
         md_description = ''NFT #1 on the Nexus network.'',
         md_image = ''https://api.example.com/uploads/token-1-1700000000001-cat.png'',
         md_external_url = ''http://localhost:3000/nft/1'',
         md_attributes =
           [\<lparr> trait_type = ''Token ID'', attr_value = StringValue ''1'', display_type = None \<rparr>,
            \<lparr> trait_type = ''Image Type'', attr_value = StringValue ''Uploaded'',
              display_type = None \<rparr>,
            \<lparr> trait_type = ''Created'', attr_value = NumberValue 1700000000,
              display_type = Some ''date'' \<rparr>] \<rparr>"
proof -
  let ?files = "[''token-1-1700000000000-cat.png'', ''token-1-1700000000001-cat.png'']"
  have found: "findUploadedImage example_server ''1''
               = Inr (Some ''/uploads/token-1-1700000000001-cat.png'')"
    by (simp add: findUploadedImage_def example_server_def startsWith_def Let_def)
  have ok: "status (GET example_env example_server 1700000000999 ''1'') = 200"
    by (simp add: GET_cases found)
  have files: "?files =
      (case uploads example_server of
         None \<Rightarrow> []
       | Some entries \<Rightarrow>
           filter (\<lambda>file. startsWith file (''token-'' @ ''1'' @ ''-'')) (map fst entries))"
    by (simp add: example_server_def startsWith_def)
  have api: "''https://api.example.com'' =
      or_else (NEXT_PUBLIC_API_URL example_env) ''http://localhost:3000''"
    by (simp add: example_env_def or_else_def)
  have web: "''http://localhost:3000'' =
      or_else (NEXT_PUBLIC_WEBSITE_URL example_env) ''http://localhost:3000''"
    by (simp add: example_env_def or_else_def)
  have mx: "Max (set ?files) = ''token-1-1700000000001-cat.png''"
    by (simp add: max_def)
  from GET_success_document [OF ok files api web] mx ok show ?thesis
    by simp
qed


section \<open>Properties of the upload endpoint\<close>

















section \<open>Properties of uploads as the metadata endpoint sees them\<close>










section \<open>Properties of the gallery fetch\<close>

lemma fetch_loop_map: "fetch_loop w n i nfts = nfts @ map (token_entry w) [i..<Suc n]"
proof (induction w n i nfts rule: fetch_loop.induct)
  case (1 w n i nfts)
  show ?case
  proof (cases "i \<le> n")
    case True
    then have "[i..<Suc n] = i # [Suc i..<Suc n]"
      by (simp add: upt_conv_Cons)
    with True 1 show ?thesis
      by (subst fetch_loop.simps) simp
  next
    case False
    then show ?thesis
      by (subst fetch_loop.simps) simp
  qed
qed

lemma token_entry_tokenId: "nft_tokenId (token_entry w i) = decimal i"
  by (auto simp: token_entry_def fetch_token_def Let_def split: sum.splits if_splits)

lemma token_entry_metadata:
  "nft_metadata (token_entry w i) =
     (case tokenURI w i of
        Inl e \<Rightarrow> None
      | Inr uri \<Rightarrow>
          if uri = [] then None
          else
            (case fetch w i (metadataURL (or_else (api_url w) (origin w)) uri i) of
               Inl e \<Rightarrow> None
             | Inr response \<Rightarrow>
                 if \<not> ok response then None
                 else (case content_type response of
                         None \<Rightarrow> None
                       | Some ct \<Rightarrow>
                           if \<not> includes_str ct ''application/json'' then None
                           else (case json_body response of
                                   Inl e \<Rightarrow> None
                                 | Inr metadata \<Rightarrow> Some metadata))))"
  by (auto simp: token_entry_def fetch_token_def truthy_def truthy_opt_def
           split: sum.splits option.splits)

lemma fetchCollectionNFTs_map:
  "totalSupply w = Inr n \<Longrightarrow>
   fetchCollectionNFTs w state = Inr (map (token_entry w) [1..<Suc n])"
  by (simp add: fetchCollectionNFTs_def fetchCollectionNFTs_try_def fetch_loop_map)

lemma fetchCollectionNFTs_returns: "\<exists>nfts. fetchCollectionNFTs w state = Inr nfts"
  by (simp add: fetchCollectionNFTs_def split: sum.splits)

lemma token_entry_cong:
  assumes "tokenURI w' i = tokenURI w i" and "fetch w' i = fetch w i"
    and "api_url w' = api_url w" and "origin w' = origin w"
  shows "token_entry w' i = token_entry w i"
  unfolding token_entry_def fetch_token_def assms ..

lemma map_upt_nth:
  assumes "1 \<le> i" and "i \<le> n"
  shows "map f [1..<Suc n] ! (i - 1) = f i"
proof -
  from assms have "1 + (i - 1) < Suc n" by simp
  then have "[1..<Suc n] ! (i - 1) = 1 + (i - 1)"
    by (rule nth_upt)
  moreover from assms have "i - 1 < length [1..<Suc n]" by simp
  ultimately show ?thesis using assms by (simp only: nth_map) simp
qed

lemma fetchCollectionNFTs_entries:
  fixes w :: "'m gallery_world"
  assumes "totalSupply w = Inr n" and "n < 2 ^ 53"
  shows "\<exists>nfts.
     fetchCollectionNFTs w state = Inr nfts \<and>
     length nfts = n \<and>
     map nft_tokenId nfts = map decimal [1..<Suc n] \<and>
     (\<forall>i. 1 \<le> i \<and> i \<le> n \<longrightarrow>
        nft_tokenId (nfts ! (i - 1)) = decimal i \<and>
        nft_metadata (nfts ! (i - 1)) =
          (case tokenURI w i of
             Inl e \<Rightarrow> None
           | Inr uri \<Rightarrow>
               if uri = [] then None
               else
                 (case fetch w i (metadataURL (or_else (api_url w) (origin w)) uri i) of
                    Inl e \<Rightarrow> None
                  | Inr response \<Rightarrow>
                      if \<not> ok response then None
                      else (case content_type response of
                              None \<Rightarrow> None
                            | Some ct \<Rightarrow>
                                if \<not> includes_str ct ''application/json'' then None
                                else (case json_body response of
                                        Inl e \<Rightarrow> None
                                      | Inr metadata \<Rightarrow> Some metadata)))) \<and>
        (\<forall>w' state'.
           totalSupply w' = Inr n \<and> tokenURI w' i = tokenURI w i \<and> fetch w' i = fetch w i \<and>
           api_url w' = api_url w \<and> origin w' = origin w \<longrightarrow>
           (\<exists>nfts'. fetchCollectionNFTs w' state' = Inr nfts' \<and>
                    nfts' ! (i - 1) = nfts ! (i - 1))))"
proof -
  let ?nfts = "map (token_entry w) [1..<Suc n]"
  have res: "fetchCollectionNFTs w state = Inr ?nfts"
    using assms(1) by (rule fetchCollectionNFTs_map)
  have nth: "?nfts ! (i - 1) = token_entry w i" if "1 \<le> i" "i \<le> n" for i
    using that by (rule map_upt_nth)
  have indep: "\<exists>nfts'. fetchCollectionNFTs w' state' = Inr nfts' \<and>
                 nfts' ! (i - 1) = ?nfts ! (i - 1)"
    if i: "1 \<le> i" "i \<le> n"
      and same: "totalSupply w' = Inr n" "tokenURI w' i = tokenURI w i"
        "fetch w' i = fetch w i" "api_url w' = api_url w" "origin w' = origin w"
    for i w' state'
  proof -
    have "fetchCollectionNFTs w' state' = Inr (map (token_entry w') [1..<Suc n])"
      using same(1) by (rule fetchCollectionNFTs_map)
    moreover from i have "map (token_entry w') [1..<Suc n] ! (i - 1) = token_entry w' i"
      by (rule map_upt_nth)
    moreover have "token_entry w' i = token_entry w i"
      using same(2-5) by (rule token_entry_cong)
    ultimately show ?thesis using nth [OF i] by simp
  qed
  have ids: "map nft_tokenId ?nfts = map decimal [1..<Suc n]"
    by (simp add: token_entry_tokenId comp_def)
  show ?thesis
  proof (rule exI [of _ ?nfts], intro conjI allI impI)
    show "fetchCollectionNFTs w state = Inr ?nfts" by (rule res)
    show "length ?nfts = n" by simp
    show "map nft_tokenId ?nfts = map decimal [1..<Suc n]" by (rule ids)
  next
    fix i assume "1 \<le> i \<and> i \<le> n"
    then show "nft_tokenId (?nfts ! (i - 1)) = decimal i"
      by (simp only: nth token_entry_tokenId)
  next
    fix i assume i: "1 \<le> i \<and> i \<le> n"
    then have "?nfts ! (i - 1) = token_entry w i" by (simp only: nth)
    then show "nft_metadata (?nfts ! (i - 1)) =
          (case tokenURI w i of
             Inl e \<Rightarrow> None
           | Inr uri \<Rightarrow>
               if uri = [] then None
               else
                 (case fetch w i (metadataURL (or_else (api_url w) (origin w)) uri i) of
                    Inl e \<Rightarrow> None
                  | Inr response \<Rightarrow>
                      if \<not> ok response then None
                      else (case content_type response of
                              None \<Rightarrow> None
                            | Some ct \<Rightarrow>
                                if \<not> includes_str ct ''application/json'' then None
                                else (case json_body response of
                                        Inl e \<Rightarrow> None
                                      | Inr metadata \<Rightarrow> Some metadata))))"
      by (simp only: token_entry_metadata)
  next
    fix i and w' :: "'m gallery_world" and state' :: "'m nft list"
    assume "1 \<le> i \<and> i \<le> n"
      and "totalSupply w' = Inr n \<and> tokenURI w' i = tokenURI w i \<and> fetch w' i = fetch w i \<and>
           api_url w' = api_url w \<and> origin w' = origin w"
    then show "\<exists>nfts'. fetchCollectionNFTs w' state' = Inr nfts' \<and>
                    nfts' ! (i - 1) = ?nfts ! (i - 1)"
      using indep by blast
  qed
qed

text \<open>
  Claim C4.  The fetch never throws.  For a collection whose total supply reads as \<open>n\<close>
  it sets the gallery to exactly \<open>n\<close> entries, with the token identifiers 1 to \<open>n\<close>
  in order.  The entry of token \<open>i\<close> has metadata exactly when its URI was read and is
  not empty, its fetch answered with an ok status and a JSON content type, and the body
  parsed; in every other case it is present with null metadata.  The entry of token
  \<open>i\<close> is the same in any other run that reads the same for token \<open>i\<close>, whatever
  happens to the other tokens.
\<close>

theorem gallery_partial_failure_tolerance:
  fixes w :: "'m gallery_world"
  shows "(\<exists>nfts. fetchCollectionNFTs w state = Inr nfts) \<and>
   (\<forall>n. totalSupply w = Inr n \<and> n < 2 ^ 53 \<longrightarrow>
     (\<exists>nfts.
           fetchCollectionNFTs w state = Inr nfts \<and>
           length nfts = n \<and>
           map nft_tokenId nfts = map decimal [1..<Suc n] \<and>
           (\<forall>i. 1 \<le> i \<and> i \<le> n \<longrightarrow>
              nft_tokenId (nfts ! (i - 1)) = decimal i \<and>
              nft_metadata (nfts ! (i - 1)) =
                (case tokenURI w i of
                   Inl e \<Rightarrow> None
                 | Inr uri \<Rightarrow>
                     if uri = [] then None
                     else
                       (case fetch w i (metadataURL (or_else (api_url w) (origin w)) uri i) of
                          Inl e \<Rightarrow> None
                        | Inr response \<Rightarrow>
                            if \<not> ok response then None
                            else (case content_type response of
                                    None \<Rightarrow> None
                                  | Some ct \<Rightarrow>
                                      if \<not> includes_str ct ''application/json'' then None
                                      else (case json_body response of
                                              Inl e \<Rightarrow> None
                                            | Inr metadata \<Rightarrow> Some metadata)))) \<and>
              (\<forall>w' state'.
                 totalSupply w' = Inr n \<and> tokenURI w' i = tokenURI w i \<and> fetch w' i = fetch w i \<and>
                 api_url w' = api_url w \<and> origin w' = origin w \<longrightarrow>
                 (\<exists>nfts'. fetchCollectionNFTs w' state' = Inr nfts' \<and>
                          nfts' ! (i - 1) = nfts ! (i - 1))))))"
proof (intro conjI allI impI)
  show "\<exists>nfts. fetchCollectionNFTs w state = Inr nfts"
    by (rule fetchCollectionNFTs_returns)
next
  fix n
  assume "totalSupply w = Inr n \<and> n < 2 ^ 53"
  then have "totalSupply w = Inr n" and "n < 2 ^ 53" by simp_all
  then show "\<exists>nfts.
           fetchCollectionNFTs w state = Inr nfts \<and>
           length nfts = n \<and>
           map nft_tokenId nfts = map decimal [1..<Suc n] \<and>
           (\<forall>i. 1 \<le> i \<and> i \<le> n \<longrightarrow>
              nft_tokenId (nfts ! (i - 1)) = decimal i \<and>
              nft_metadata (nfts ! (i - 1)) =
                (case tokenURI w i of
                   Inl e \<Rightarrow> None
                 | Inr uri \<Rightarrow>
                     if uri = [] then None
                     else
                       (case fetch w i (metadataURL (or_else (api_url w) (origin w)) uri i) of
                          Inl e \<Rightarrow> None
                        | Inr response \<Rightarrow>
                            if \<not> ok response then None
                            else (case content_type response of
                                    None \<Rightarrow> None
                                  | Some ct \<Rightarrow>
                                      if \<not> includes_str ct ''application/json'' then None
                                      else (case json_body response of
                                              Inl e \<Rightarrow> None
                                            | Inr metadata \<Rightarrow> Some metadata)))) \<and>
              (\<forall>w' state'.
                 totalSupply w' = Inr n \<and> tokenURI w' i = tokenURI w i \<and> fetch w' i = fetch w i \<and>
                 api_url w' = api_url w \<and> origin w' = origin w \<longrightarrow>
                 (\<exists>nfts'. fetchCollectionNFTs w' state' = Inr nfts' \<and>
                          nfts' ! (i - 1) = nfts ! (i - 1))))"
    by (rule fetchCollectionNFTs_entries)
qed

text \<open>
  Witness for C4: total supply 3, where the fetch for token 2 answers 500.  The gallery
  has three entries and the second has null metadata.
\<close>

theorem gallery_partial_failure_tolerance_witness:
  "totalSupply example_gallery = Inr 3 \<and> (3::nat) < 2 ^ 53 \<and>
   fetchCollectionNFTs example_gallery [] =
     Inr [\<lparr> nft_tokenId = ''1'', nft_metadata = Some ''metadata'' \<rparr>,
          \<lparr> nft_tokenId = ''2'', nft_metadata = None \<rparr>,
          \<lparr> nft_tokenId = ''3'', nft_metadata = Some ''metadata'' \<rparr>]"
proof -
  have h1: "totalSupply example_gallery = Inr 3"
    by (simp add: example_gallery_def)
  have h2: "(3::nat) < 2 ^ 53" by simp
  from gallery_partial_failure_tolerance [of example_gallery "[]"] h1 h2
  obtain nfts where res: "fetchCollectionNFTs example_gallery [] = Inr nfts"
    and len: "length nfts = 3"
    and ids: "map nft_tokenId nfts = map decimal [1..<Suc 3]"
    and each: "\<And>i. 1 \<le> i \<and> i \<le> 3 \<Longrightarrow>
        nft_metadata (nfts ! (i - 1)) =
          (case tokenURI example_gallery i of
             Inl e \<Rightarrow> None
           | Inr uri \<Rightarrow>
               if uri = [] then None
               else
                 (case fetch example_gallery i
                         (metadataURL (or_else (api_url example_gallery) (origin example_gallery))
                            uri i) of
                    Inl e \<Rightarrow> None
                  | Inr response \<Rightarrow>
                      if \<not> ok response then None
                      else (case content_type response of
                              None \<Rightarrow> None
                            | Some ct \<Rightarrow>
                                if \<not> includes_str ct ''application/json'' then None
                                else (case json_body response of
                                        Inl e \<Rightarrow> None
                                      | Inr metadata \<Rightarrow> Some metadata))))"
    by blast
  from len obtain a b c where nfts: "nfts = [a, b, c]"
    by (auto simp: length_Suc_conv numeral_3_eq_3)
  have d: "decimal 1 = ''1''" "decimal 2 = ''2''" "decimal 3 = ''3''"
    by (simp_all add: decimal_def number_toString.simps digit_char_def)
  have "[1..<Suc 3] = [1, 2, 3]"
    by (simp add: upt_rec)
  with ids nfts d have id3: "nft_tokenId a = ''1''" "nft_tokenId b = ''2''" "nft_tokenId c = ''3''"
    by simp_all
  have inc: "includes_str ''application/json'' ''application/json''"
    by (simp add: startsWith_def)
  from each [of 1] nfts inc have m1: "nft_metadata a = Some ''metadata''"
    by (simp add: example_gallery_def example_response_def)
  from each [of 2] nfts have m2: "nft_metadata b = None"
    by (simp add: example_gallery_def example_response_def)
  from each [of 3] nfts inc have m3: "nft_metadata c = Some ''metadata''"
    by (simp add: example_gallery_def example_response_def)
  from id3 m1 m2 m3 have "a = \<lparr> nft_tokenId = ''1'', nft_metadata = Some ''metadata'' \<rparr>"
    "b = \<lparr> nft_tokenId = ''2'', nft_metadata = None \<rparr>"
    "c = \<lparr> nft_tokenId = ''3'', nft_metadata = Some ''metadata'' \<rparr>"
    by simp_all
  with res nfts h1 h2 show ?thesis by simp
qed

section \<open>Properties of the network switch\<close>

lemma nexus_chain_params_value: "nexus_chain_params =
   \<lparr> chainId = ''0x189'', rpcUrls = [''https://rpc.nexus.xyz/http''],
     chainName = ''Nexus Testnet'',
     nativeCurrency = \<lparr> currency_name = ''NEXUS'', currency_symbol = ''NEXUS'', decimals = 18 \<rparr> \<rparr>"
  by (simp add: nexus_chain_params_def NEXUS_CHAIN_ID_HEX_value NEXUS_RPC_URL_def)

lemma switchNetwork_switch_error:
  assumes "respond (wallet s) (Wallet_switchEthereumChain NEXUS_CHAIN_ID_HEX) = (Inl e, w1)"
  shows "switchNetwork (Some respond) s =
     (let s1 = s\<lparr>wallet := w1,
                 requests := requests s @ [Wallet_switchEthereumChain NEXUS_CHAIN_ID_HEX]\<rparr>
      in if code e = Some 4902 then
           (case respond w1 (Wallet_addEthereumChain nexus_chain_params) of
              (Inl addError, w2) \<Rightarrow>
                (False, s1\<lparr>wallet := w2,
                          requests := requests s1 @ [Wallet_addEthereumChain nexus_chain_params]\<rparr>)
            | (Inr r, w2) \<Rightarrow>
                (case respond w2 Eth_chainId of
                   (Inl e3, w3) \<Rightarrow>
                     (False, s1\<lparr>wallet := w3,
                               requests := requests s1 @
                                 [Wallet_addEthereumChain nexus_chain_params, Eth_chainId]\<rparr>)
                 | (Inr reported, w3) \<Rightarrow>
                     (reported = Str NEXUS_CHAIN_ID_HEX,
                      s1\<lparr>wallet := w3,
                         requests := requests s1 @
                           [Wallet_addEthereumChain nexus_chain_params, Eth_chainId],
                         isCorrectNetwork := (reported = Str NEXUS_CHAIN_ID_HEX)\<rparr>)))
         else (False, s1))"
  using assms
  by (auto simp: switchNetwork_def request_def checkNetwork_def Let_def
           split: prod.splits sum.splits)

text \<open>
  Claim C8, as the code has it.  When the switch request fails with code 4902, the next
  request is the add-chain request with chain \<^verbatim>\<open>0x189\<close>, the RPC URL, the name
  \<^verbatim>\<open>Nexus Testnet\<close> and the currency NEXUS/NEXUS/18.  If the wallet accepts it, the
  chain identifier is asked for and the result is whether the wallet reports
  \<^verbatim>\<open>0x189\<close>; if the wallet rejects it, nothing more is asked and the result is false.
  When the switch request fails with any other error, no further request is issued and
  the result is false.
\<close>

theorem switchNetwork_fallback:
  assumes "respond (wallet s) (Wallet_switchEthereumChain ''0x189'') = (Inl e, w1)"
  shows "(code e = Some 4902 \<longrightarrow>
           (\<exists>rest.
              requests (snd (switchNetwork (Some respond) s)) =
                requests s @
                [Wallet_switchEthereumChain ''0x189'',
                 Wallet_addEthereumChain
                   \<lparr> chainId = ''0x189'', rpcUrls = [''https://rpc.nexus.xyz/http''],
                     chainName = ''Nexus Testnet'',
                     nativeCurrency = \<lparr> currency_name = ''NEXUS'', currency_symbol = ''NEXUS'',
                                        decimals = 18 \<rparr> \<rparr>] @ rest \<and>
              (case respond w1 (Wallet_addEthereumChain nexus_chain_params) of
                 (Inl addError, w2) \<Rightarrow>
                   rest = [] \<and> \<not> fst (switchNetwork (Some respond) s)
               | (Inr r, w2) \<Rightarrow>
                   rest = [Eth_chainId] \<and>
                   fst (switchNetwork (Some respond) s) =
                     (fst (respond w2 Eth_chainId) = Inr (Str ''0x189''))))) \<and>
         (code e \<noteq> Some 4902 \<longrightarrow>
            requests (snd (switchNetwork (Some respond) s)) =
              requests s @ [Wallet_switchEthereumChain ''0x189''] \<and>
            \<not> fst (switchNetwork (Some respond) s))"
proof -
  from assms
  have sw: "respond (wallet s) (Wallet_switchEthereumChain NEXUS_CHAIN_ID_HEX) = (Inl e, w1)"
    by (simp add: NEXUS_CHAIN_ID_HEX_value)
  show ?thesis
    unfolding switchNetwork_switch_error [where respond = respond and s = s, OF sw]
    by (auto simp: Let_def NEXUS_CHAIN_ID_HEX_value nexus_chain_params_value split: prod.splits sum.splits)
qed

text \<open>
  Counterexample to C8 as stated: a wallet that answers the switch request with 4902 and
  rejects the add-chain request.  The add-chain request is issued, but the chain
  identifier is not asked for afterwards.
\<close>

theorem switchNetwork_add_chain_rejected:
  "fst (rejecting_wallet (wallet example_session) (Wallet_switchEthereumChain ''0x189'')) =
     Inl \<lparr> code = Some 4902, error_message = ''Unrecognized chain ID'' \<rparr> \<and>
   requests (snd (switchNetwork (Some rejecting_wallet) example_session)) =
     [Wallet_switchEthereumChain ''0x189'',
      Wallet_addEthereumChain
        \<lparr> chainId = ''0x189'', rpcUrls = [''https://rpc.nexus.xyz/http''],
          chainName = ''Nexus Testnet'',
          nativeCurrency = \<lparr> currency_name = ''NEXUS'', currency_symbol = ''NEXUS'',
                             decimals = 18 \<rparr> \<rparr>] \<and>
   Eth_chainId \<notin> set (requests (snd (switchNetwork (Some rejecting_wallet) example_session))) \<and>
   \<not> fst (switchNetwork (Some rejecting_wallet) example_session)"
  by (simp add: switchNetwork_def request_def checkNetwork_def rejecting_wallet_def
        example_session_def NEXUS_CHAIN_ID_HEX_value nexus_chain_params_value)

text \<open>
  Witness for C8: a wallet that does not know the chain and accepts to add it, and a
  wallet whose user rejects the switch.
\<close>

theorem switchNetwork_fallback_witness:
  "switchNetwork (Some accepting_wallet) example_session =
     (True, \<lparr> wallet = ''0x189'',
              requests = [Wallet_switchEthereumChain ''0x189'',
                          Wallet_addEthereumChain nexus_chain_params, Eth_chainId],
              isCorrectNetwork = True \<rparr>) \<and>
   requests (snd (switchNetwork (Some locked_wallet) example_session)) =
     [Wallet_switchEthereumChain ''0x189''] \<and>
   \<not> fst (switchNetwork (Some locked_wallet) example_session)"
proof -
  have a: "accepting_wallet (wallet example_session) (Wallet_switchEthereumChain ''0x189'') =
     (Inl \<lparr> code = Some 4902, error_message = ''Unrecognized chain ID'' \<rparr>, ''0x1'')"
    by (simp add: accepting_wallet_def example_session_def)
  have l: "locked_wallet (wallet example_session) (Wallet_switchEthereumChain ''0x189'') =
     (Inl \<lparr> code = Some 4001, error_message = ''User rejected the request.'' \<rparr>, ''0x1'')"
    by (simp add: locked_wallet_def example_session_def)
  have add: "accepting_wallet ''0x1'' (Wallet_addEthereumChain nexus_chain_params) =
     (Inr Null, ''0x189'')"
    by (simp add: accepting_wallet_def nexus_chain_params_value)
  have chk: "accepting_wallet ''0x189'' Eth_chainId = (Inr (Str ''0x189''), ''0x189'')"
    by (simp add: accepting_wallet_def)
  from switchNetwork_fallback [where respond = accepting_wallet and s = example_session, OF a]
    add chk
  have "requests (snd (switchNetwork (Some accepting_wallet) example_session)) =
          [Wallet_switchEthereumChain ''0x189'', Wallet_addEthereumChain nexus_chain_params,
           Eth_chainId] \<and>
        fst (switchNetwork (Some accepting_wallet) example_session)"
    by (auto simp: example_session_def nexus_chain_params_value)
  moreover have "wallet (snd (switchNetwork (Some accepting_wallet) example_session)) = ''0x189''"
    "isCorrectNetwork (snd (switchNetwork (Some accepting_wallet) example_session))"
    by (simp_all add: switchNetwork_def request_def checkNetwork_def accepting_wallet_def
          example_session_def NEXUS_CHAIN_ID_HEX_value nexus_chain_params_value)
  ultimately have "switchNetwork (Some accepting_wallet) example_session =
     (True, \<lparr> wallet = ''0x189'',
              requests = [Wallet_switchEthereumChain ''0x189'',
                          Wallet_addEthereumChain nexus_chain_params, Eth_chainId],
              isCorrectNetwork = True \<rparr>)"
    by (cases "switchNetwork (Some accepting_wallet) example_session") auto
  moreover
  from switchNetwork_fallback [where respond = locked_wallet and s = example_session, OF l]
  have "requests (snd (switchNetwork (Some locked_wallet) example_session)) =
          [Wallet_switchEthereumChain ''0x189''] \<and>
        \<not> fst (switchNetwork (Some locked_wallet) example_session)"
    by (simp add: example_session_def)
  ultimately show ?thesis by blast
qed

section \<open>Properties of the deployment flows\<close>

lemma landing_baseUri_ends_with_slash: "last (landing_baseUri apiUrl) = CHR ''/''"
  by (simp add: landing_baseUri_def)

lemma script_baseUri_ends_with_slash: "last (script_baseUri apiUrl) = CHR ''/''"
  by (simp add: script_baseUri_def)

lemma script_baseUri_agrees:
  "(script_baseUri apiUrl = landing_baseUri apiUrl) =
     (\<not> (\<exists>v. apiUrl = v @ ''//''))"
proof (cases apiUrl rule: rev_cases)
  case Nil
  then show ?thesis
    by (simp add: script_baseUri_def landing_baseUri_def strip_one_trailing_slash_def
          strip_trailing_slashes_def)
next
  case (snoc v c)
  show ?thesis
  proof (cases "c = CHR ''/''")
    case True
    have "(v = strip_trailing_slashes v) = (v = [] \<or> last v \<noteq> CHR ''/'')"
      using strip_trailing_slashes_fixed [of v] by auto
    also have "\<dots> = (\<not> (\<exists>u. v = u @ ''/''))"
      by (cases v rule: rev_cases) auto
    finally show ?thesis
      using snoc True
      by (simp add: script_baseUri_def landing_baseUri_def strip_one_trailing_slash_def
            strip_trailing_slashes_snoc)
  next
    case False
    with snoc show ?thesis
      by (simp add: script_baseUri_def landing_baseUri_def strip_one_trailing_slash_def
            strip_trailing_slashes_snoc)
  qed
qed

text \<open>
  Claim C7.  The landing screen removes every trailing slash of the API URL before it
  appends \<^verbatim>\<open>/api/metadata/\<close>; the script removes one.  For the API URL
  \<^verbatim>\<open>http://localhost:3000//\<close> the script computes a base URI with a double slash
  inside, which is not the URL with its trailing slashes removed followed by
  \<^verbatim>\<open>/api/metadata/\<close>.
\<close>

theorem script_baseUri_double_slash:
  "script_baseUri ''http://localhost:3000//'' = ''http://localhost:3000//api/metadata/'' \<and>
   strip_trailing_slashes ''http://localhost:3000//'' @ ''/api/metadata/''
     = ''http://localhost:3000/api/metadata/'' \<and>
   landing_baseUri ''http://localhost:3000//'' = ''http://localhost:3000/api/metadata/'' \<and>
   script_baseUri ''http://localhost:3000//'' \<noteq> landing_baseUri ''http://localhost:3000//''"
  by (simp add: script_baseUri_def landing_baseUri_def strip_one_trailing_slash_def
        strip_trailing_slashes_def)

lemma main_calls:
  "truthy_opt (env_api_url w) \<Longrightarrow>
   \<exists>rest. fst (main w) =
            Deploy ''Nexus NFT Collection'' ''NNFT'' (script_baseUri (the (env_api_url w))) # rest \<and>
          set rest \<subseteq> {Mint}"
  by (auto simp: main_def Let_def split: option.splits)

lemma main_no_api_url: "\<not> truthy_opt (env_api_url w) \<Longrightarrow> fst (main w) = []"
  by (simp add: main_def)

lemma main_never_sets_base_uri: "SetBaseURI uri \<notin> set (fst (main w))"
  by (auto simp: main_def Let_def split: option.splits)

lemma deployNFT_calls_arguments:
  "deployNFT_calls nftName apiUrl signerAddress = Inr calls \<Longrightarrow>
   \<exists>symbol. generateNFTSymbol nftName = Inr symbol \<and>
     calls = [Deploy nftName symbol signerAddress, SetBaseURI (landing_baseUri apiUrl)]"
  by (auto simp: deployNFT_calls_def split: sum.splits)

text \<open>
  Claim C3.  The script deploys with the fixed name and symbol, and its third constructor
  argument is the metadata base URI it computed, not the address of the deployer; it
  never calls \<^verbatim>\<open>setBaseURI\<close>.  The landing screen passes the signer's address as the
  third argument and sets the base URI by a later call.
\<close>

theorem deploy_script_constructor_arguments:
  "fst (main example_script_world) =
     [Deploy ''Nexus NFT Collection'' ''NNFT'' ''http://localhost:3000/api/metadata/'', Mint] \<and>
   deployer_address example_script_world = ''0xf39Fd6e51aad88F6F4ce6aB8827279cffFb92266'' \<and>
   ''http://localhost:3000/api/metadata/'' \<noteq> deployer_address example_script_world \<and>
   deployNFT_calls ''Cat'' ''http://localhost:3000'' (deployer_address example_script_world) =
     Inr [Deploy ''Cat'' ''CAT'' ''0xf39Fd6e51aad88F6F4ce6aB8827279cffFb92266'',
          SetBaseURI ''http://localhost:3000/api/metadata/'']"
proof -
  have "generateNFTSymbol ''Cat'' = Inr ''CAT''" by code_simp
  then show ?thesis
    by (simp add: main_def example_script_world_def script_baseUri_def truthy_opt_def truthy_def
          strip_one_trailing_slash_def deployNFT_calls_def landing_baseUri_def
          strip_trailing_slashes_def)
qed

end
